theory Spec2Isabelle
  imports Complex_Main "HOL-Library.Word" "HOL-Library.Sublist" "HOL-Library.Log_Nat"
begin

section \<open>ObsiRandom: the note selector of \<^verbatim>\<open>main.ts\<close>\<close>

subsection \<open>JavaScript strings\<close>

text \<open>
  A JavaScript string is a sequence of UTF-16 code units; \<^verbatim>\<open>startsWith\<close> and
  \<^verbatim>\<open>trim\<close> work on code units. The string literals of the source are ASCII, where the
  code unit is the character code.
\<close>

type_synonym jsstring = "16 word list"

definition js :: "string \<Rightarrow> jsstring" where
  "js s = map of_char s"

text \<open>
  \<^verbatim>\<open>String.prototype.startsWith(searchString)\<close> with the default position 0: false when
  the search string is longer than the string, otherwise the comparison of the leading code
  units with the search string.
\<close>

definition startsWith :: "jsstring \<Rightarrow> jsstring \<Rightarrow> bool" where
  "startsWith s searchString =
     (if length s < length searchString then False
      else take (length searchString) s = searchString)"

text \<open>
  \<^verbatim>\<open>String.prototype.trim\<close> strips the code units of ECMAScript's WhiteSpace and
  LineTerminator productions from both ends: TAB, VT, FF, SP, NBSP, ZWNBSP, the other
  space separators of Unicode (category Zs), and LF, CR, LS, PS.
\<close>

definition isWhiteSpace :: "16 word \<Rightarrow> bool" where
  "isWhiteSpace c =
     (c = 0x0009 \<or> c = 0x000A \<or> c = 0x000B \<or> c = 0x000C \<or> c = 0x000D \<or> c = 0x0020
      \<or> c = 0x00A0 \<or> c = 0x1680 \<or> (0x2000 \<le> c \<and> c \<le> 0x200A)
      \<or> c = 0x2028 \<or> c = 0x2029 \<or> c = 0x202F \<or> c = 0x205F \<or> c = 0x3000 \<or> c = 0xFEFF)"

definition trim :: "jsstring \<Rightarrow> jsstring" where
  "trim s = rev (dropWhile isWhiteSpace (rev (dropWhile isWhiteSpace s)))"

subsection \<open>JavaScript numbers\<close>

text \<open>
  A Number is an IEEE 754 binary64 value: a sign, a significand of 53 bits and a power of
  two. An arithmetic operation gives the binary64 value nearest to its exact result, a tie
  going to the even significand. The plugin computes with integers (times in milliseconds,
  a count of days, the length of an array, all exact as Numbers) and with the value of
  \<^verbatim>\<open>Math.random()\<close>.

  \<^verbatim>\<open>round53\<close> rounds a natural number to 53 significant bits in this way: a number of at
  most 53 bits is kept, a longer one loses its low bits, rounded to nearest, ties to even.
\<close>

definition round53 :: "nat \<Rightarrow> nat" where
  "round53 m =
     (let len = floorlog 2 m
      in if len \<le> 53 then m
         else let shift = len - 53;
                  q = m div 2 ^ shift;
                  rest = m mod 2 ^ shift;
                  half = 2 ^ (shift - 1)
              in (if half < rest \<or> (rest = half \<and> odd q) then q + 1 else q) * 2 ^ shift)"

text \<open>
  The Numbers that integer arithmetic can give: an integer, or an infinity when the rounded
  result is beyond the largest binary64 value. \<^verbatim>\<open>toNumber\<close> is the Number an operation
  returns when its exact result is the given integer.
\<close>

datatype number = Num int | PosInfinity | NegInfinity

definition toNumber :: "int \<Rightarrow> number" where
  "toNumber i =
     (let r = round53 (nat \<bar>i\<bar>)
      in if 2 ^ 1024 \<le> r then (if i < 0 then NegInfinity else PosInfinity)
         else Num (if i < 0 then - int r else int r))"

text \<open>The operators \<^verbatim>\<open>a * b\<close>, \<^verbatim>\<open>a - x\<close> and \<^verbatim>\<open>a >= x\<close> as the source uses them.\<close>

definition number_times :: "int \<Rightarrow> int \<Rightarrow> number" where
  "number_times a b = toNumber (a * b)"

fun number_minus :: "int \<Rightarrow> number \<Rightarrow> number" where
  "number_minus a (Num b) = toNumber (a - b)"
| "number_minus a PosInfinity = NegInfinity"
| "number_minus a NegInfinity = PosInfinity"

fun number_ge :: "int \<Rightarrow> number \<Rightarrow> bool" where
  "number_ge a (Num b) = (b \<le> a)"
| "number_ge a PosInfinity = False"
| "number_ge a NegInfinity = True"

text \<open>
  A Number that is not negative, as a significand and a scale: the value
  \<^verbatim>\<open>mantissa / 2^scale\<close>. The binary64 values in \<open>[0, 1)\<close>, the range of
  \<^verbatim>\<open>Math.random()\<close>, are those with a significand below \<open>2^53\<close>, a scale of at most 1074
  and a significand below \<open>2^scale\<close>.
\<close>

record dyadic =
  mantissa :: nat
  scale :: nat

definition isUnitNumber :: "dyadic \<Rightarrow> bool" where
  "isUnitNumber r = (mantissa r < 2 ^ 53 \<and> scale r \<le> 1074 \<and> mantissa r < 2 ^ scale r)"

text \<open>
  \<^verbatim>\<open>r * n\<close> for such a Number and an array length: the exact product has the scale of
  \<^verbatim>\<open>r\<close> and is rounded to 53 bits. \<^verbatim>\<open>Math.floor\<close> is exact.
\<close>

definition dyadic_times :: "dyadic \<Rightarrow> nat \<Rightarrow> dyadic" where
  "dyadic_times r n = \<lparr>mantissa = round53 (mantissa r * n), scale = scale r\<rparr>"

definition Math_floor :: "dyadic \<Rightarrow> int" where
  "Math_floor d = int (mantissa d div 2 ^ scale d)"

text \<open>
  A time value, as \<^verbatim>\<open>Date.now()\<close> returns it: an integer of milliseconds within
  8640000000000000 of the epoch.
\<close>

typedef timevalue = "{t :: int. - 8640000000000000 \<le> t \<and> t \<le> 8640000000000000}"
  morphisms ms Abs_timevalue
  by (rule exI [of _ 0]) simp

setup_lifting type_definition_timevalue

lift_definition timeValue :: "int \<Rightarrow> timevalue"
  is "\<lambda>t. if - 8640000000000000 \<le> t \<and> t \<le> 8640000000000000 then t else 0"
  by simp

subsection \<open>Notes and the host\<close>

text \<open>
  A \<^verbatim>\<open>TFile\<close> of the host, with the fields the plugin reads: \<^verbatim>\<open>file.path\<close>,
  \<^verbatim>\<open>file.basename\<close> and \<^verbatim>\<open>file.stat.ctime\<close> (milliseconds since the epoch, an integer
  that is a Number).
\<close>

record tfile =
  path :: jsstring
  basename :: jsstring
  ctime :: int

text \<open>
  What the host answers during one command: the listing of
  \<^verbatim>\<open>this.app.vault.getMarkdownFiles()\<close>, the clock read by \<^verbatim>\<open>Date.now()\<close>, the value of
  \<^verbatim>\<open>Math.random()\<close>, and whether \<^verbatim>\<open>getLeaf().openFile(note)\<close> fails.
\<close>

record host =
  markdownFiles :: "tfile list"
  clock :: timevalue
  mathRandom :: dyadic
  openFileFails :: "tfile \<Rightarrow> bool"

definition dateNow :: "host \<Rightarrow> int" where
  "dateNow h = ms (clock h)"

text \<open>The calls a command makes to the host, in the order it makes them.\<close>

datatype event =
    GetMarkdownFiles
  | DateNow
  | MathRandom
  | OpenFile tfile
  | ConsoleError jsstring
  | Notice jsstring

text \<open>The values of type \<^verbatim>\<open>T | null\<close>, and \<^verbatim>\<open>undefined\<close>, which an array read can give.\<close>

datatype 'a jsvalue = Null | Undefined | Obj 'a

text \<open>\<^verbatim>\<open>xs[i]\<close> for an integral number \<^verbatim>\<open>i\<close>: \<^verbatim>\<open>undefined\<close> out of range.\<close>

definition array_get :: "'a list \<Rightarrow> int \<Rightarrow> 'a jsvalue" where
  "array_get xs i = (if 0 \<le> i \<and> i < int (length xs) then Obj (xs ! nat i) else Undefined)"

subsection \<open>The selector\<close>

definition TIME_PERIODS_WEEK :: int where "TIME_PERIODS_WEEK = 7"
definition TIME_PERIODS_MONTH :: int where "TIME_PERIODS_MONTH = 30"
definition TIME_PERIODS_YEAR :: int where "TIME_PERIODS_YEAR = 365"

definition MILLISECONDS_PER_DAY :: int where
  "MILLISECONDS_PER_DAY = 24 * 60 * 60 * 1000"

definition getAllNotes :: "host \<Rightarrow> tfile list \<times> event list" where
  "getAllNotes h = (markdownFiles h, [GetMarkdownFiles])"

text \<open>The constant \<^verbatim>\<open>cutoffTime\<close> of \<^verbatim>\<open>getNotesFromPastDays\<close>, computed in Numbers.\<close>

definition cutoffTime :: "host \<Rightarrow> int \<Rightarrow> number" where
  "cutoffTime h days = number_minus (dateNow h) (number_times days MILLISECONDS_PER_DAY)"

definition getNotesFromPastDays :: "host \<Rightarrow> int \<Rightarrow> tfile list \<times> event list" where
  "getNotesFromPastDays h days =
     (let cutoff = cutoffTime h days;
          files = markdownFiles h
      in (filter (\<lambda>file. number_ge (ctime file) cutoff) files, [DateNow, GetMarkdownFiles]))"

definition getNotesFromPastWeek :: "host \<Rightarrow> tfile list \<times> event list" where
  "getNotesFromPastWeek h = getNotesFromPastDays h TIME_PERIODS_WEEK"

definition getNotesFromPastMonth :: "host \<Rightarrow> tfile list \<times> event list" where
  "getNotesFromPastMonth h = getNotesFromPastDays h TIME_PERIODS_MONTH"

definition getNotesFromPastYear :: "host \<Rightarrow> tfile list \<times> event list" where
  "getNotesFromPastYear h = getNotesFromPastDays h TIME_PERIODS_YEAR"

definition getNotesFromDirectory :: "host \<Rightarrow> jsstring \<Rightarrow> tfile list \<times> event list" where
  "getNotesFromDirectory h directoryPath =
     (let files = markdownFiles h
      in (filter (\<lambda>file. startsWith (path file) directoryPath) files, [GetMarkdownFiles]))"

definition getRandomNote :: "host \<Rightarrow> 'a list \<Rightarrow> 'a jsvalue \<times> event list" where
  "getRandomNote h notes =
     (if length notes = 0 then (Null, [])
      else let randomIndex = Math_floor (dyadic_times (mathRandom h) (length notes))
           in (array_get notes randomIndex, [MathRandom]))"

subsection \<open>Opening a note\<close>

text \<open>
  \<^verbatim>\<open>openRandomNote\<close>: the \<^verbatim>\<open>try\<close> block covers \<^verbatim>\<open>getLeaf().openFile(randomNote)\<close>; when it
  fails, the \<^verbatim>\<open>catch\<close> branch logs to the console and shows a notice. \<^verbatim>\<open>if (randomNote)\<close>
  is false for \<^verbatim>\<open>null\<close> and \<^verbatim>\<open>undefined\<close>. The result is the sequence of host calls made.
\<close>

definition openRandomNote :: "host \<Rightarrow> tfile list \<Rightarrow> jsstring \<Rightarrow> event list" where
  "openRandomNote h notes context =
     (if length notes = 0 then [Notice (js ''No notes found '' @ context @ js ''!'')]
      else case getRandomNote h notes of
        (randomNote, picked) \<Rightarrow>
          picked @
          (case randomNote of
             Obj note \<Rightarrow>
               if openFileFails h note
               then [OpenFile note,
                     ConsoleError (js ''ObsiRandom: Failed to open note:''),
                     Notice (js ''Failed to open note: '' @ basename note)]
               else [OpenFile note,
                     Notice (js ''Opened random note: '' @ basename note)]
           | Null \<Rightarrow> []
           | Undefined \<Rightarrow> []))"

definition executeRandomNoteCommand ::
  "host \<Rightarrow> (host \<Rightarrow> tfile list \<times> event list) \<Rightarrow> jsstring \<Rightarrow> event list" where
  "executeRandomNoteCommand h getNotes context =
     (case getNotes h of (notes, listed) \<Rightarrow> listed @ openRandomNote h notes context)"

definition openRandomNoteFromVault :: "host \<Rightarrow> event list" where
  "openRandomNoteFromVault h = executeRandomNoteCommand h getAllNotes (js ''in the vault'')"

definition openRandomRecentNote :: "host \<Rightarrow> event list" where
  "openRandomRecentNote h =
     executeRandomNoteCommand h getNotesFromPastWeek (js ''from the past 7 days'')"

definition openRandomNoteFromMonth :: "host \<Rightarrow> event list" where
  "openRandomNoteFromMonth h =
     executeRandomNoteCommand h getNotesFromPastMonth (js ''from the past month'')"

definition openRandomNoteFromYear :: "host \<Rightarrow> event list" where
  "openRandomNoteFromYear h =
     executeRandomNoteCommand h getNotesFromPastYear (js ''from the past year'')"

subsection \<open>Settings and the custom directories\<close>

record ObsiRandomSettings =
  customDirectory1 :: jsstring
  customDirectory2 :: jsstring
  customDirectory3 :: jsstring

text \<open>The type \<^verbatim>\<open>1 | 2 | 3\<close> of a directory number, and its text in a template literal.\<close>

datatype directoryNumber = One | Two | Three

fun numberText :: "directoryNumber \<Rightarrow> jsstring" where
  "numberText One = js ''1''"
| "numberText Two = js ''2''"
| "numberText Three = js ''3''"

text \<open>\<^verbatim>\<open>settings[`customDirectory${num}`]\<close>, read and written.\<close>

fun customDirectory :: "ObsiRandomSettings \<Rightarrow> directoryNumber \<Rightarrow> jsstring" where
  "customDirectory st One = customDirectory1 st"
| "customDirectory st Two = customDirectory2 st"
| "customDirectory st Three = customDirectory3 st"

fun setCustomDirectory ::
  "directoryNumber \<Rightarrow> jsstring \<Rightarrow> ObsiRandomSettings \<Rightarrow> ObsiRandomSettings" where
  "setCustomDirectory One v st = st\<lparr>customDirectory1 := v\<rparr>"
| "setCustomDirectory Two v st = st\<lparr>customDirectory2 := v\<rparr>"
| "setCustomDirectory Three v st = st\<lparr>customDirectory3 := v\<rparr>"

text \<open>\<^verbatim>\<open>!directoryPath.trim()\<close> holds exactly when the trimmed string is empty.\<close>

definition openRandomNoteFromCustomDirectory ::
  "host \<Rightarrow> ObsiRandomSettings \<Rightarrow> directoryNumber \<Rightarrow> event list" where
  "openRandomNoteFromCustomDirectory h st directoryNumber =
     (let directoryPath = customDirectory st directoryNumber
      in if trim directoryPath = []
         then [Notice (js ''Please set Custom Directory '' @ numberText directoryNumber
                       @ js '' in plugin settings first!'')]
         else case getNotesFromDirectory h directoryPath of
           (customNotes, listed) \<Rightarrow>
             listed @ openRandomNote h customNotes
                        (js ''in '' @ directoryPath @ js '' directory''))"

subsection \<open>The command registry\<close>

text \<open>
  A registered command: its identifier, its name, and its callback, which for a
  custom-directory command is the call of \<^verbatim>\<open>openRandomNoteFromCustomDirectory(num)\<close>.
\<close>

datatype callback =
    CallOpenRandomNoteFromVault
  | CallOpenRandomRecentNote
  | CallOpenRandomNoteFromMonth
  | CallOpenRandomNoteFromYear
  | CallOpenRandomNoteFromCustomDirectory directoryNumber

record command =
  command_id :: jsstring
  command_name :: jsstring
  command_callback :: callback

text \<open>
  The plugin object: its settings, the identifier and name of its manifest, and the host's
  registry \<^verbatim>\<open>this.app.commands.commands\<close>, an object from command identifiers to commands.
\<close>

record plugin =
  settings :: ObsiRandomSettings
  manifest_id :: jsstring
  manifest_name :: jsstring
  commands :: "jsstring \<rightharpoonup> command"

text \<open>
  The host's \<^verbatim>\<open>Plugin.addCommand\<close> prefixes the identifier with the plugin's identifier and a
  colon, and the name with the plugin's name, and stores the command in the registry under
  the prefixed identifier; \<^verbatim>\<open>app.commands.removeCommand\<close> deletes the entry of an
  identifier.
\<close>

definition addCommand :: "command \<Rightarrow> plugin \<Rightarrow> plugin" where
  "addCommand c p =
     (let registered = c\<lparr>command_id := manifest_id p @ js '':'' @ command_id c,
                         command_name := manifest_name p @ js '': '' @ command_name c\<rparr>
      in p\<lparr>commands := (commands p)(command_id registered \<mapsto> registered)\<rparr>)"

definition removeCommand :: "jsstring \<Rightarrow> plugin \<Rightarrow> plugin" where
  "removeCommand commandId p = p\<lparr>commands := (commands p)(commandId := None)\<rparr>"

text \<open>
  The identifier \<^verbatim>\<open>`${this.manifest.id}:open-random-custom-directory-${num}`\<close> that
  \<^verbatim>\<open>removeCustomCommands\<close> computes for a directory number.
\<close>

definition customCommandId :: "plugin \<Rightarrow> directoryNumber \<Rightarrow> jsstring" where
  "customCommandId p num =
     manifest_id p @ js '':open-random-custom-directory-'' @ numberText num"

definition removeCustomCommands :: "plugin \<Rightarrow> plugin" where
  "removeCustomCommands p =
     fold (\<lambda>num q.
             let commandId = customCommandId q num
             in if commands q commandId \<noteq> None then removeCommand commandId q else q)
          [One, Two, Three] p"

definition addCustomCommands :: "plugin \<Rightarrow> plugin" where
  "addCustomCommands p =
     fold (\<lambda>num q.
             let directoryPath = customDirectory (settings q) num
             in if trim directoryPath \<noteq> []
                then addCommand
                       \<lparr>command_id = js ''open-random-custom-directory-'' @ numberText num,
                        command_name = js ''Random note from '' @ directoryPath,
                        command_callback = CallOpenRandomNoteFromCustomDirectory num\<rparr> q
                else q)
          [One, Two, Three] p"

definition updateCommands :: "plugin \<Rightarrow> plugin" where
  "updateCommands p = addCustomCommands (removeCustomCommands p)"

text \<open>
  The registry entry of a directory number after \<^verbatim>\<open>addCustomCommands\<close> added its command:
  the object literal of the source, with identifier and name prefixed by the host.
\<close>

definition customCommand :: "plugin \<Rightarrow> directoryNumber \<Rightarrow> command" where
  "customCommand p num =
     \<lparr>command_id = customCommandId p num,
      command_name =
        manifest_name p @ js '': Random note from '' @ customDirectory (settings p) num,
      command_callback = CallOpenRandomNoteFromCustomDirectory num\<rparr>"

text \<open>
  The \<^verbatim>\<open>onChange\<close> handler of a directory setting (dropdown and text field alike): store the
  value, await \<^verbatim>\<open>saveSettings()\<close>, then \<^verbatim>\<open>updateCommands()\<close>. When the host's
  \<^verbatim>\<open>saveData\<close> rejects, the handler ends at the \<^verbatim>\<open>await\<close>.
\<close>

definition onChange :: "directoryNumber \<Rightarrow> jsstring \<Rightarrow> bool \<Rightarrow> plugin \<Rightarrow> plugin" where
  "onChange num v saved p =
     (let q = p\<lparr>settings := setCustomDirectory num v (settings p)\<rparr>
      in if saved then updateCommands q else q)"

subsection \<open>The selector over a store of objects\<close>

text \<open>
  Arrays and files are objects, held by reference. A store keeps the file objects and the
  array objects; a reference is a position in the store, an array holds references to
  files, and a new object is allocated at the end.
\<close>

type_synonym ref = nat

record store =
  fileObjects :: "tfile list"
  arrayObjects :: "ref list list"

definition fileAt :: "store \<Rightarrow> ref \<Rightarrow> tfile" where
  "fileAt s r = fileObjects s ! r"

definition arrayAt :: "store \<Rightarrow> ref \<Rightarrow> ref list" where
  "arrayAt s a = (if a < length (arrayObjects s) then arrayObjects s ! a else [])"

text \<open>
  \<^verbatim>\<open>Array.prototype.filter\<close> allocates a new array with the elements that pass the callback
  and returns its reference.
\<close>

definition array_filter :: "(ref \<Rightarrow> bool) \<Rightarrow> ref \<Rightarrow> store \<Rightarrow> ref \<times> store" where
  "array_filter callback a s =
     (length (arrayObjects s),
      s\<lparr>arrayObjects := arrayObjects s @ [filter callback (arrayAt s a)]\<rparr>)"

text \<open>
  The three selector functions on references: \<^verbatim>\<open>listing\<close> is the reference the host's
  \<^verbatim>\<open>getMarkdownFiles()\<close> returned, \<^verbatim>\<open>now\<close> the value of \<^verbatim>\<open>Date.now()\<close>, \<^verbatim>\<open>randomValue\<close> that of
  \<^verbatim>\<open>Math.random()\<close>.
\<close>

definition getNotesFromPastDays_store ::
  "timevalue \<Rightarrow> int \<Rightarrow> ref \<Rightarrow> store \<Rightarrow> ref \<times> store" where
  "getNotesFromPastDays_store now days listing s =
     (let cutoff = number_minus (ms now) (number_times days MILLISECONDS_PER_DAY)
      in array_filter (\<lambda>file. number_ge (ctime (fileAt s file)) cutoff) listing s)"

definition getNotesFromDirectory_store :: "jsstring \<Rightarrow> ref \<Rightarrow> store \<Rightarrow> ref \<times> store" where
  "getNotesFromDirectory_store directoryPath listing s =
     array_filter (\<lambda>file. startsWith (path (fileAt s file)) directoryPath) listing s"

definition getRandomNote_store :: "dyadic \<Rightarrow> ref \<Rightarrow> store \<Rightarrow> ref jsvalue \<times> store" where
  "getRandomNote_store randomValue notes s =
     (if length (arrayAt s notes) = 0 then (Null, s)
      else let randomIndex = Math_floor (dyadic_times randomValue (length (arrayAt s notes)))
           in (array_get (arrayAt s notes) randomIndex, s))"

subsection \<open>An example vault\<close>

text \<open>
  Two notes of the specification's examples. The first was created exactly seven days
  before the clock of the example host, the second a millisecond earlier. The random value
  of the example host is the Number written \<^verbatim>\<open>0.3333333333333333\<close>, whose product with 3
  rounds to 1.
\<close>

definition note_a :: tfile where
  "note_a = \<lparr>path = js ''Projects/a.md'', basename = js ''a'', ctime = 1000000000000\<rparr>"

definition note_b :: tfile where
  "note_b = \<lparr>path = js ''ProjectsArchive/b.md'', basename = js ''b'', ctime = 999999999999\<rparr>"

definition example_host :: host where
  "example_host = \<lparr>markdownFiles = [note_a, note_b], clock = timeValue 1000604800000,
                    mathRandom = \<lparr>mantissa = 6004799503160661, scale = 54\<rparr>,
                    openFileFails = (\<lambda>_. False)\<rparr>"



definition example_settings :: ObsiRandomSettings where
  "example_settings = \<lparr>customDirectory1 = js ''Projects'',
                        customDirectory2 = [0x0020, 0x0009, 0x3000],
                        customDirectory3 = []\<rparr>"

text \<open>
  A plugin whose registry still holds the command of the second directory, registered when
  that directory was \<^verbatim>\<open>Old\<close>, while the settings now have white space there.
\<close>

definition example_plugin :: plugin where
  "example_plugin =
     \<lparr>settings = example_settings, manifest_id = js ''obsirandom'',
      manifest_name = js ''ObsiRandom'',
      commands = [js ''obsirandom:open-random-custom-directory-2'' \<mapsto>
         \<lparr>command_id = js ''obsirandom:open-random-custom-directory-2'',
          command_name = js ''ObsiRandom: Random note from Old'',
          command_callback = CallOpenRandomNoteFromCustomDirectory Two\<rparr>]\<rparr>"

section \<open>Properties\<close>

subsection \<open>Strings and array reads\<close>

lemma startsWith_prefix: "startsWith s p = prefix p s"
  by (auto simp: startsWith_def prefix_def dest: prefix_length_le) (metis append_take_drop_id)

lemma dropWhile_all_iff: "(\<forall>x\<in>set (dropWhile P xs). P x) \<longleftrightarrow> (\<forall>x\<in>set xs. P x)"
proof
  assume a: "\<forall>x\<in>set (dropWhile P xs). P x"
  have "dropWhile P xs = []"
  proof (rule ccontr)
    assume ne: "dropWhile P xs \<noteq> []"
    then have "\<not> P (hd (dropWhile P xs))" by (rule hd_dropWhile)
    moreover have "hd (dropWhile P xs) \<in> set (dropWhile P xs)" using ne by simp
    ultimately show False using a by blast
  qed
  then show "\<forall>x\<in>set xs. P x" by (simp add: dropWhile_eq_Nil_conv)
next
  assume "\<forall>x\<in>set xs. P x"
  then show "\<forall>x\<in>set (dropWhile P xs). P x" by (meson set_dropWhileD)
qed

lemma trim_empty_iff: "trim s = [] \<longleftrightarrow> (\<forall>c\<in>set s. isWhiteSpace c)"
  by (simp add: trim_def dropWhile_eq_Nil_conv dropWhile_all_iff)

lemma array_get_range: "array_get xs i = Undefined \<or> array_get xs i \<in> Obj ` set xs"
proof (cases "0 \<le> i \<and> i < int (length xs)")
  case True
  then have "nat i < length xs" by linarith
  then have "xs ! nat i \<in> set xs" by simp
  then show ?thesis using True by (simp add: array_get_def)
next
  case False
  then have "array_get xs i = Undefined" unfolding array_get_def by (rule if_not_P)
  then show ?thesis by simp
qed

lemma MILLISECONDS_PER_DAY_value: "MILLISECONDS_PER_DAY = 86400000"
  by (simp add: MILLISECONDS_PER_DAY_def)

lemma getNotesFromDirectory_filter:
  "fst (getNotesFromDirectory h directoryPath) =
     filter (\<lambda>file. prefix directoryPath (path file)) (markdownFiles h)"
  by (simp add: getNotesFromDirectory_def startsWith_prefix)

lemma count_list_filter:
  "count_list (filter P xs) x = (if P x then count_list xs x else 0)"
  by (induction xs) auto

subsection \<open>Numbers\<close>

text \<open>Integers of magnitude at most \<open>2^53\<close> are Numbers, and arithmetic on them is exact.\<close>

lemma round53_small: "m \<le> 2 ^ 53 \<Longrightarrow> round53 m = m"
proof (cases "m = 2 ^ 53")
  case True
  have "round53 (2 ^ 53) = 2 ^ 53" by (simp add: round53_def compute_floorlog)
  then show ?thesis using True by simp
next
  case False
  assume "m \<le> 2 ^ 53"
  with False have "m < 2 ^ 53" by simp
  then have "floorlog 2 m \<le> 53" by (simp add: floorlog_le_iff)
  then show ?thesis by (simp add: round53_def)
qed

lemma toNumber_exact: "\<bar>i\<bar> \<le> 2 ^ 53 \<Longrightarrow> toNumber i = Num i"
proof -
  assume a: "\<bar>i\<bar> \<le> 2 ^ 53"
  then have "nat \<bar>i\<bar> \<le> 2 ^ 53" by (simp add: nat_le_iff)
  then have r: "round53 (nat \<bar>i\<bar>) = nat \<bar>i\<bar>" by (rule round53_small)
  have "nat \<bar>i\<bar> < 2 ^ 1024" using \<open>nat \<bar>i\<bar> \<le> 2 ^ 53\<close>
    by (rule le_less_trans) simp
  then show ?thesis by (simp add: toNumber_def r Let_def)
qed

lemma round53_times_less:
  assumes "isUnitNumber r" and "0 < n"
  shows "round53 (mantissa r * n) < n * 2 ^ scale r"
proof -
  define m k where "m = mantissa r" and "k = scale r"
  define M T where "M = m * n" and "T = n * 2 ^ k"
  have m53: "m < 2 ^ 53" and mk: "m < 2 ^ k"
    using assms(1) by (simp_all add: isUnitNumber_def m_def k_def)
  have MT: "M < T" using mk assms(2) by (simp add: M_def T_def)
  have gap: "2 ^ k \<le> (2 ^ k - m) * 2 ^ 53"
  proof (cases "k \<le> 53")
    case True
    then have "(2::nat) ^ k \<le> 2 ^ 53" by (intro power_increasing) simp_all
    moreover have "1 \<le> 2 ^ k - m" using mk by simp
    ultimately show ?thesis
      by (metis mult_le_mono mult.commute nat_mult_1_right)
  next
    case False
    then have "53 \<le> k - 1" by simp
    then have "(2::nat) ^ 53 \<le> 2 ^ (k - 1)" by (intro power_increasing) simp_all
    then have "m < 2 ^ (k - 1)" using m53 by simp
    moreover have "(2::nat) ^ k = 2 * 2 ^ (k - 1)" using False by (cases k) simp_all
    ultimately have "2 ^ (k - 1) \<le> 2 ^ k - m" by simp
    then have "2 ^ (k - 1) * 2 \<le> (2 ^ k - m) * 2 ^ 53"
      by (rule mult_le_mono) simp
    then show ?thesis using \<open>(2::nat) ^ k = 2 * 2 ^ (k - 1)\<close> by simp
  qed
  have TM: "T - M = n * (2 ^ k - m)"
    by (simp add: T_def M_def diff_mult_distrib2 mult.commute)
  have big: "T \<le> (T - M) * 2 ^ 53"
  proof -
    have "n * 2 ^ k \<le> n * ((2 ^ k - m) * 2 ^ 53)" using gap by (rule mult_le_mono2)
    then have "T \<le> n * (2 ^ k - m) * 2 ^ 53" by (simp only: T_def mult.assoc)
    then show ?thesis by (simp only: TM)
  qed
  have "round53 M < T"
  proof (cases "floorlog 2 M \<le> 53")
    case True
    then have "round53 M = M" by (simp add: round53_def)
    then show ?thesis using MT by simp
  next
    case False
    define s where "s = floorlog 2 M - 53"
    define q rest where "q = M div 2 ^ s" and "rest = M mod 2 ^ s"
    have s1: "1 \<le> s" using False by (simp add: s_def)
    have Mpos: "0 < M" using False by (cases "M = 0") (simp_all add: floorlog_def)
    have "2 ^ (floorlog 2 M - 1) \<le> M" using floorlog_bounds [of M 2] Mpos by simp
    moreover have "floorlog 2 M - 1 = (s - 1) + 53" using False by (simp add: s_def)
    ultimately have low: "2 ^ (s - 1) * 2 ^ 53 \<le> M" by (simp add: power_add)
    have split: "M = q * 2 ^ s + rest" unfolding q_def rest_def by (rule div_mult_mod_eq [symmetric])
    have two: "(2::nat) ^ s = 2 * 2 ^ (s - 1)" using s1 by (cases s) simp_all
    have r: "round53 M =
        (if 2 ^ (s - 1) < rest \<or> (rest = 2 ^ (s - 1) \<and> odd q) then q + 1 else q) * 2 ^ s"
      using False by (simp add: round53_def Let_def s_def q_def rest_def)
    have "2 ^ (s - 1) * 2 ^ 53 < (T - M) * 2 ^ 53" using low MT big by linarith
    then have far: "2 ^ (s - 1) < T - M" by simp
    show ?thesis
    proof (cases "2 ^ (s - 1) < rest \<or> (rest = 2 ^ (s - 1) \<and> odd q)")
      case True
      then have "2 ^ (s - 1) \<le> rest" by auto
      moreover have "round53 M = q * 2 ^ s + 2 ^ s" using True r by simp
      ultimately have "round53 M \<le> M + 2 ^ (s - 1)" using split two by linarith
      then show ?thesis using far by linarith
    next
      case False
      then have "round53 M = q * 2 ^ s" using r by simp
      then have "round53 M \<le> M" using split by linarith
      then show ?thesis using MT by linarith
    qed
  qed
  then show ?thesis by (simp only: M_def T_def m_def k_def)
qed

lemma Math_floor_times_range:
  assumes "isUnitNumber r" and "0 < n"
  shows "0 \<le> Math_floor (dyadic_times r n) \<and> Math_floor (dyadic_times r n) < int n"
proof -
  have "round53 (mantissa r * n) div 2 ^ scale r < n"
    using round53_times_less [OF assms] by (simp add: less_mult_imp_div_less)
  then show ?thesis by (simp add: Math_floor_def dyadic_times_def)
qed

lemma isUnitNumber_value:
  assumes "isUnitNumber r"
  shows "0 \<le> real (mantissa r) / 2 ^ scale r \<and> real (mantissa r) / 2 ^ scale r < 1"
proof -
  have "mantissa r < 2 ^ scale r" using assms by (simp add: isUnitNumber_def)
  then have "real (mantissa r) < real (2 ^ scale r)" by (simp only: of_nat_less_iff)
  then show ?thesis by simp
qed

lemma dateNow_range: "- 8640000000000000 \<le> dateNow h \<and> dateNow h \<le> 8640000000000000"
  using ms [of "clock h"] by (simp add: dateNow_def)

lemma cutoffTime_exact:
  assumes "\<bar>days * 86400000\<bar> \<le> 2 ^ 53" and "\<bar>dateNow h - days * 86400000\<bar> \<le> 2 ^ 53"
  shows "cutoffTime h days = Num (dateNow h - days * 86400000)"
proof -
  have "number_times days 86400000 = Num (days * 86400000)"
    unfolding number_times_def using assms(1) by (rule toNumber_exact)
  moreover have "toNumber (dateNow h - days * 86400000) = Num (dateNow h - days * 86400000)"
    using assms(2) by (rule toNumber_exact)
  ultimately show ?thesis by (simp add: cutoffTime_def MILLISECONDS_PER_DAY_value)
qed


text \<open>The windows of the commands, for every clock the host can have.\<close>

lemma cutoffTime_window:
  assumes "0 \<le> days" and "days \<le> 365"
  shows "cutoffTime h days = Num (dateNow h - days * 86400000)"
proof (rule cutoffTime_exact)
  have p: "(2::int) ^ 53 = 9007199254740992" by simp
  show "\<bar>days * 86400000\<bar> \<le> 2 ^ 53" unfolding p using assms by linarith
  show "\<bar>dateNow h - days * 86400000\<bar> \<le> 2 ^ 53"
    unfolding p using assms dateNow_range [of h] by linarith
qed

subsection \<open>The random pick\<close>

lemma getRandomNote_index:
  assumes "notes \<noteq> []" "isUnitNumber (mathRandom h)"
  shows "\<exists>i<length notes. fst (getRandomNote h notes) = Obj (notes ! i)"
proof -
  let ?n = "length notes"
  let ?k = "Math_floor (dyadic_times (mathRandom h) ?n)"
  have n: "0 < ?n" using assms(1) by simp
  from Math_floor_times_range [OF assms(2) n]
  have lo: "0 \<le> ?k" and hi: "?k < int ?n" by simp_all
  from lo hi have "nat ?k < ?n" by linarith
  moreover have "fst (getRandomNote h notes) = Obj (notes ! nat ?k)"
    using assms(1) lo hi by (simp add: getRandomNote_def array_get_def Let_def)
  ultimately show ?thesis by blast
qed

text \<open>
  Claim C1. For a non-empty list of notes and a value of \<^verbatim>\<open>Math.random()\<close> in \<open>[0, 1)\<close>,
  \<^verbatim>\<open>getRandomNote\<close> returns the element at a position of the list, hence a member of the
  list: never \<^verbatim>\<open>null\<close>, \<^verbatim>\<open>undefined\<close> or a value that is not in the list. The index is
  the floor of the rounded product, which stays below the length.
\<close>

theorem getRandomNote_member:
  assumes "notes \<noteq> []" and "isUnitNumber (mathRandom h)"
  shows "(\<exists>i<length notes. fst (getRandomNote h notes) = Obj (notes ! i))
         \<and> fst (getRandomNote h notes) \<in> Obj ` set notes"
proof -
  from getRandomNote_index [OF assms] obtain i
    where "i < length notes" and "fst (getRandomNote h notes) = Obj (notes ! i)" by blast
  then show ?thesis using nth_mem by fastforce
qed

theorem getRandomNote_member_witness:
  "[note_a, note_b, note_a] \<noteq> [] \<and> isUnitNumber (mathRandom example_host)
   \<and> fst (getRandomNote example_host [note_a, note_b, note_a]) = Obj note_b
   \<and> fst (getRandomNote example_host [note_a, note_b, note_a])
       \<in> Obj ` set [note_a, note_b, note_a]"
  using getRandomNote_member [of "[note_a, note_b, note_a]" example_host]
  by (simp add: example_host_def getRandomNote_def array_get_def isUnitNumber_def
      Math_floor_def dyadic_times_def round53_def compute_floorlog)

text \<open>
  Claim C2. On the empty list \<^verbatim>\<open>getRandomNote\<close> returns \<^verbatim>\<open>null\<close>, without drawing a random
  number, and \<^verbatim>\<open>null\<close> is returned for the empty list only. On every list, and for every
  value of the random source, the function returns a value: \<^verbatim>\<open>null\<close>, an element of the
  list, or \<^verbatim>\<open>undefined\<close> from a read out of range; no step of it raises an exception.
\<close>

theorem getRandomNote_empty:
  "getRandomNote h [] = (Null, [])
   \<and> (fst (getRandomNote h notes) = Null) = (notes = [])
   \<and> (fst (getRandomNote h notes) = Null \<or> fst (getRandomNote h notes) = Undefined
        \<or> fst (getRandomNote h notes) \<in> Obj ` set notes)"
proof (cases "notes = []")
  case True
  then show ?thesis by (simp add: getRandomNote_def)
next
  case False
  let ?k = "Math_floor (dyadic_times (mathRandom h) (length notes))"
  have pick: "fst (getRandomNote h notes) = array_get notes ?k"
    using False by (simp add: getRandomNote_def Let_def)
  have "array_get notes ?k = Undefined \<or> array_get notes ?k \<in> Obj ` set notes"
    by (rule array_get_range)
  moreover have "array_get notes ?k \<noteq> Null" by (simp add: array_get_def)
  ultimately show ?thesis using False pick by (auto simp: getRandomNote_def)
qed

subsection \<open>The filters\<close>




text \<open>
  Claim C4. \<^verbatim>\<open>getNotesFromDirectory(directoryPath)\<close> keeps exactly the notes whose path has
  \<^verbatim>\<open>directoryPath\<close> as a literal prefix of code units. Nothing is normalised:
  \<^verbatim>\<open>"Projects"\<close> matches \<^verbatim>\<open>"Projects/a.md"\<close> and \<^verbatim>\<open>"ProjectsArchive/b.md"\<close>, it does not
  match a path in another case or one that has it after the start, and a prefix with a
  trailing slash is compared with its slash.
\<close>

theorem getNotesFromDirectory_literal_prefix:
  "fst (getNotesFromDirectory h directoryPath) =
     filter (\<lambda>file. prefix directoryPath (path file)) (markdownFiles h)
   \<and> fst (getNotesFromDirectory example_host (js ''Projects'')) = [note_a, note_b]
   \<and> fst (getNotesFromDirectory example_host (js ''Projects/'')) = [note_a]
   \<and> startsWith (js ''Projects/a.md'') (js ''Projects'')
   \<and> startsWith (js ''ProjectsArchive/b.md'') (js ''Projects'')
   \<and> \<not> startsWith (js ''projects/c.md'') (js ''Projects'')
   \<and> \<not> startsWith (js ''Projects'') (js ''Projects/'')
   \<and> \<not> startsWith (js ''Notes/Projects/d.md'') (js ''Projects'')"
proof -
  have "fst (getNotesFromDirectory example_host (js ''Projects'')) = [note_a, note_b]"
    and "fst (getNotesFromDirectory example_host (js ''Projects/'')) = [note_a]"
    by (simp_all add: getNotesFromDirectory_def example_host_def note_a_def note_b_def
        startsWith_def js_def)
  moreover have "startsWith (js ''Projects/a.md'') (js ''Projects'')"
    and "startsWith (js ''ProjectsArchive/b.md'') (js ''Projects'')"
    and "\<not> startsWith (js ''projects/c.md'') (js ''Projects'')"
    and "\<not> startsWith (js ''Projects'') (js ''Projects/'')"
    and "\<not> startsWith (js ''Notes/Projects/d.md'') (js ''Projects'')"
    by (simp_all add: startsWith_def js_def)
  ultimately show ?thesis by (simp add: getNotesFromDirectory_filter)
qed

text \<open>
  Claim C9. Both filters return a subsequence of the listing: the kept notes stand in
  their original order, each as often as in the listing, and a note that fails the test
  does not occur in the result.
\<close>

theorem filters_order_preserving:
  "subseq (fst (getNotesFromPastDays h days)) (markdownFiles h)
   \<and> subseq (fst (getNotesFromDirectory h directoryPath)) (markdownFiles h)
   \<and> count_list (fst (getNotesFromPastDays h days)) file =
       (if number_ge (ctime file) (cutoffTime h days)
        then count_list (markdownFiles h) file else 0)
   \<and> count_list (fst (getNotesFromDirectory h directoryPath)) file =
       (if startsWith (path file) directoryPath
        then count_list (markdownFiles h) file else 0)"
  by (simp add: getNotesFromPastDays_def getNotesFromDirectory_def count_list_filter)

text \<open>
  Claim C10. A day is 86400000 milliseconds, and the windows of the past week, month and
  year are 7, 30 and 365 such days: the three commands list the notes created at or after
  \<^verbatim>\<open>Date.now()\<close> minus 604800000, 2592000000 and 31536000000 milliseconds, whatever the
  calendar says.
\<close>

theorem recency_windows_fixed:
  "MILLISECONDS_PER_DAY = 86400000
   \<and> fst (getNotesFromPastWeek h) =
       filter (\<lambda>file. ctime file \<ge> dateNow h - 7 * 86400000) (markdownFiles h)
   \<and> fst (getNotesFromPastMonth h) =
       filter (\<lambda>file. ctime file \<ge> dateNow h - 30 * 86400000) (markdownFiles h)
   \<and> fst (getNotesFromPastYear h) =
       filter (\<lambda>file. ctime file \<ge> dateNow h - 365 * 86400000) (markdownFiles h)
   \<and> openRandomRecentNote h =
       [DateNow, GetMarkdownFiles] @
       openRandomNote h (filter (\<lambda>file. ctime file \<ge> dateNow h - 604800000) (markdownFiles h))
         (js ''from the past 7 days'')
   \<and> openRandomNoteFromMonth h =
       [DateNow, GetMarkdownFiles] @
       openRandomNote h (filter (\<lambda>file. ctime file \<ge> dateNow h - 2592000000) (markdownFiles h))
         (js ''from the past month'')
   \<and> openRandomNoteFromYear h =
       [DateNow, GetMarkdownFiles] @
       openRandomNote h (filter (\<lambda>file. ctime file \<ge> dateNow h - 31536000000) (markdownFiles h))
         (js ''from the past year'')"
proof -
  have week: "cutoffTime h 7 = Num (dateNow h - 604800000)"
    and month: "cutoffTime h 30 = Num (dateNow h - 2592000000)"
    and year: "cutoffTime h 365 = Num (dateNow h - 31536000000)"
    using cutoffTime_window [of 7 h] cutoffTime_window [of 30 h] cutoffTime_window [of 365 h]
    by simp_all
  show ?thesis
    by (simp add: MILLISECONDS_PER_DAY_value getNotesFromPastWeek_def getNotesFromPastMonth_def
        getNotesFromPastYear_def getNotesFromPastDays_def TIME_PERIODS_WEEK_def
        TIME_PERIODS_MONTH_def TIME_PERIODS_YEAR_def openRandomRecentNote_def
        openRandomNoteFromMonth_def openRandomNoteFromYear_def executeRandomNoteCommand_def
        week month year)
qed

subsection \<open>Notices\<close>

text \<open>
  Claim C6. With an empty list of candidates \<^verbatim>\<open>openRandomNote\<close> does one thing: it shows
  the notice \<^verbatim>\<open>No notes found <context>!\<close>, which has the context in it as it was given.
  No file is opened. On an empty vault the vault-wide command ends this way.
\<close>

theorem openRandomNote_empty:
  "openRandomNote h [] context = [Notice (js ''No notes found '' @ context @ js ''!'')]
   \<and> sublist context (js ''No notes found '' @ context @ js ''!'')
   \<and> OpenFile note \<notin> set (openRandomNote h [] context)
   \<and> openRandomNoteFromVault (h\<lparr>markdownFiles := []\<rparr>) =
       [GetMarkdownFiles, Notice (js ''No notes found in the vault!'')]"
proof -
  have shown: "openRandomNote g [] c = [Notice (js ''No notes found '' @ c @ js ''!'')]"
    for g c by (simp add: openRandomNote_def)
  have inside: "sublist context (js ''No notes found '' @ context @ js ''!'')"
    unfolding sublist_def by blast
  have vault: "openRandomNoteFromVault (h\<lparr>markdownFiles := []\<rparr>) =
       [GetMarkdownFiles, Notice (js ''No notes found in the vault!'')]"
    by (simp add: openRandomNoteFromVault_def executeRandomNoteCommand_def getAllNotes_def
        shown js_def)
  show ?thesis using inside vault by (simp add: shown)
qed

text \<open>
  Claim C5. When the configured directory of a slot is empty or has only white space,
  \<^verbatim>\<open>openRandomNoteFromCustomDirectory\<close> shows the notice that asks to set that directory and
  returns: the vault is not listed, no random number is drawn, no file is opened. The
  notice differs from every \<^verbatim>\<open>No notes found\<close> notice.
\<close>

theorem unconfigured_custom_directory:
  assumes "\<forall>c\<in>set (customDirectory st n). isWhiteSpace c"
  shows "openRandomNoteFromCustomDirectory h st n =
           [Notice (js ''Please set Custom Directory '' @ numberText n
                    @ js '' in plugin settings first!'')]
         \<and> GetMarkdownFiles \<notin> set (openRandomNoteFromCustomDirectory h st n)
         \<and> MathRandom \<notin> set (openRandomNoteFromCustomDirectory h st n)
         \<and> OpenFile note \<notin> set (openRandomNoteFromCustomDirectory h st n)
         \<and> js ''Please set Custom Directory '' @ numberText n @ js '' in plugin settings first!''
             \<noteq> js ''No notes found '' @ context @ js ''!''"
proof -
  have "trim (customDirectory st n) = []" using assms by (simp add: trim_empty_iff)
  then have run: "openRandomNoteFromCustomDirectory h st n =
           [Notice (js ''Please set Custom Directory '' @ numberText n
                    @ js '' in plugin settings first!'')]"
    by (simp add: openRandomNoteFromCustomDirectory_def)
  have "js ''Please set Custom Directory '' @ numberText n @ js '' in plugin settings first!''
             \<noteq> js ''No notes found '' @ context @ js ''!''"
    by (simp add: js_def)
  then show ?thesis by (simp add: run)
qed

theorem unconfigured_custom_directory_witness:
  "list_all isWhiteSpace (customDirectory example_settings Two)
   \<and> openRandomNoteFromCustomDirectory example_host example_settings Two =
       [Notice (js ''Please set Custom Directory 2 in plugin settings first!'')]"
  using unconfigured_custom_directory [of example_settings Two example_host]
  by (simp add: example_settings_def isWhiteSpace_def js_def)

subsection \<open>The command registry\<close>

lemma customCommandId_inj: "customCommandId p n = customCommandId p m \<longleftrightarrow> n = m"
  by (cases n; cases m) (simp_all add: customCommandId_def js_def)

lemma removeCommand_step:
  "(let commandId = customCommandId q n
    in if commands q commandId \<noteq> None then removeCommand commandId q else q)
   = removeCommand (customCommandId q n) q"
proof (cases "commands q (customCommandId q n) = None")
  case True
  then have "(commands q)(customCommandId q n := None) = commands q" by (rule fun_upd_idem)
  then have "removeCommand (customCommandId q n) q = q" by (simp add: removeCommand_def)
  then show ?thesis using True by (simp add: Let_def)
next
  case False
  then show ?thesis by (simp add: Let_def)
qed

lemma customCommandId_removeCommand:
  "customCommandId (removeCommand c q) n = customCommandId q n"
  by (simp add: customCommandId_def removeCommand_def)

lemma removeCustomCommands_eq:
  "removeCustomCommands p =
     removeCommand (customCommandId p Three)
       (removeCommand (customCommandId p Two) (removeCommand (customCommandId p One) p))"
  unfolding removeCustomCommands_def
  by (simp only: fold_simps removeCommand_step customCommandId_removeCommand o_apply id_apply)

lemma removeCustomCommands_fields:
  "settings (removeCustomCommands p) = settings p"
  "manifest_id (removeCustomCommands p) = manifest_id p"
  "manifest_name (removeCustomCommands p) = manifest_name p"
  "commands (removeCustomCommands p) k =
     (if k = customCommandId p One \<or> k = customCommandId p Two \<or> k = customCommandId p Three
      then None else commands p k)"
  by (simp_all add: removeCustomCommands_eq removeCommand_def)

lemma addCommand_step:
  "(let directoryPath = customDirectory (settings q) num
    in if trim directoryPath \<noteq> []
       then addCommand
              \<lparr>command_id = js ''open-random-custom-directory-'' @ numberText num,
               command_name = js ''Random note from '' @ directoryPath,
               command_callback = CallOpenRandomNoteFromCustomDirectory num\<rparr> q
       else q)
   = (if trim (customDirectory (settings q) num) \<noteq> []
      then q\<lparr>commands := (commands q)(customCommandId q num \<mapsto> customCommand q num)\<rparr>
      else q)"
  by (simp add: Let_def addCommand_def customCommandId_def customCommand_def js_def)


lemma addCustomCommands_eq:
  "addCustomCommands p =
     p\<lparr>commands := (\<lambda>k.
        if k = customCommandId p Three \<and> trim (customDirectory (settings p) Three) \<noteq> []
        then Some (customCommand p Three)
        else if k = customCommandId p Two \<and> trim (customDirectory (settings p) Two) \<noteq> []
        then Some (customCommand p Two)
        else if k = customCommandId p One \<and> trim (customDirectory (settings p) One) \<noteq> []
        then Some (customCommand p One)
        else commands p k)\<rparr>"
  unfolding addCustomCommands_def
  apply (simp only: fold_simps addCommand_step o_apply id_apply)
  apply (simp add: customCommandId_def customCommand_def fun_eq_iff)
  done

lemma updateCommands_fields:
  "settings (updateCommands p) = settings p"
  "manifest_id (updateCommands p) = manifest_id p"
  "manifest_name (updateCommands p) = manifest_name p"
  by (simp_all add: updateCommands_def addCustomCommands_eq removeCustomCommands_fields)

lemma updateCommands_custom:
  "commands (updateCommands p) (customCommandId p num) =
     (if trim (customDirectory (settings p) num) \<noteq> [] then Some (customCommand p num) else None)"
proof -
  let ?q = "removeCustomCommands p"
  have ids: "customCommandId ?q m = customCommandId p m" for m
    by (simp add: customCommandId_def removeCustomCommands_fields)
  have cmds: "customCommand ?q m = customCommand p m" for m
    by (simp add: customCommand_def ids removeCustomCommands_fields)
  show ?thesis
    by (cases num)
       (simp_all add: updateCommands_def addCustomCommands_eq [of ?q] ids cmds
          removeCustomCommands_fields customCommandId_inj)
qed

lemma updateCommands_other:
  "(\<exists>num. k = customCommandId p num) \<or> commands (updateCommands p) k = commands p k"
proof (cases "\<exists>num. k = customCommandId p num")
  case True
  then show ?thesis by simp
next
  case False
  then have ne: "k \<noteq> customCommandId p m" for m by blast
  let ?q = "removeCustomCommands p"
  have ids: "customCommandId ?q m = customCommandId p m" for m
    by (simp add: customCommandId_def removeCustomCommands_fields)
  have "commands (updateCommands p) k = commands p k"
    by (simp add: updateCommands_def addCustomCommands_eq [of ?q] ids ne
          removeCustomCommands_fields)
  then show ?thesis by simp
qed


text \<open>
  On the example plugin: the stale command of the second directory is removed, the command
  of the first is registered under the prefixed identifier, the third has none.
\<close>

lemma updateCommands_example:
  "commands (updateCommands example_plugin) (js ''obsirandom:open-random-custom-directory-1'') =
     Some \<lparr>command_id = js ''obsirandom:open-random-custom-directory-1'',
           command_name = js ''ObsiRandom: Random note from Projects'',
           command_callback = CallOpenRandomNoteFromCustomDirectory One\<rparr>"
  "commands (updateCommands example_plugin) (js ''obsirandom:open-random-custom-directory-2'') = None"
  "commands (updateCommands example_plugin) (js ''obsirandom:open-random-custom-directory-3'') = None"
  by (simp_all add: updateCommands_def removeCustomCommands_def addCustomCommands_def
      example_plugin_def example_settings_def customCommandId_def removeCommand_def
      addCommand_def trim_def isWhiteSpace_def js_def Let_def)

text \<open>
  Claim C7, as the code has it. After \<^verbatim>\<open>updateCommands\<close>, and so after every settings
  change whose save succeeds, the directory numbers with a registered custom-directory
  command are exactly those whose configured directory is not empty after trimming. Such a
  number's entry is the command built from the current directory, every other number has
  no entry, and commands under other identifiers stay as they were. The handler stores the
  new value before it awaits the save: when the save fails, the value is stored and the
  registry is left as it was, so a command can stay registered for a directory that has
  just been emptied, as on the example plugin.
\<close>

theorem updateCommands_matches_settings:
  "{num. commands (updateCommands p) (customCommandId p num) \<noteq> None} =
     {num. trim (customDirectory (settings p) num) \<noteq> []}
   \<and> commands (updateCommands p) (customCommandId p num) =
       (if trim (customDirectory (settings p) num) \<noteq> []
        then Some (customCommand p num) else None)
   \<and> ((\<exists>n. k = customCommandId p n) \<or> commands (updateCommands p) k = commands p k)
   \<and> settings (updateCommands p) = settings p
   \<and> settings (onChange m v saved p) = setCustomDirectory m v (settings p)
   \<and> {num. commands (onChange m v True p) (customCommandId p num) \<noteq> None} =
       {num. trim (customDirectory (setCustomDirectory m v (settings p)) num) \<noteq> []}
   \<and> commands (onChange m v False p) = commands p"
proof -
  have unsaved: "commands (onChange m v False p) = commands p"
    by (simp add: onChange_def Let_def)
  let ?q = "p\<lparr>settings := setCustomDirectory m v (settings p)\<rparr>"
  have registered: "{num. commands (updateCommands r) (customCommandId r num) \<noteq> None} =
     {num. trim (customDirectory (settings r) num) \<noteq> []}" for r
    by (simp add: updateCommands_custom)
  have same_id: "customCommandId ?q num = customCommandId p num" for num
    by (simp add: customCommandId_def)
  have changed: "onChange m v True p = updateCommands ?q"
    by (simp add: onChange_def Let_def)
  have stored: "settings (onChange m v saved p) = setCustomDirectory m v (settings p)"
    by (cases saved) (simp_all add: onChange_def Let_def updateCommands_fields)
  have "{num. commands (onChange m v True p) (customCommandId p num) \<noteq> None} =
       {num. trim (customDirectory (setCustomDirectory m v (settings p)) num) \<noteq> []}"
    using registered [of ?q] by (simp add: changed same_id)
  then show ?thesis
    using registered [of p] updateCommands_other [of k p] stored unsaved
    by (simp add: updateCommands_custom updateCommands_fields)
qed

text \<open>
  For every settings change the statement of C7 fails: on the example plugin, once its
  commands are up to date, the first directory is configured and registered; emptying it
  with a save that fails leaves its command registered.
\<close>

theorem onChange_unsaved_counterexample:
  "commands (updateCommands example_plugin) (customCommandId example_plugin One) \<noteq> None
   \<and> trim (customDirectory (settings (updateCommands example_plugin)) One) \<noteq> []
   \<and> commands (onChange One [] False (updateCommands example_plugin))
         (customCommandId example_plugin One) \<noteq> None
   \<and> trim (customDirectory (settings (onChange One [] False (updateCommands example_plugin)))
         One) = []"
  by (simp add: onChange_def Let_def updateCommands_custom updateCommands_fields
      example_plugin_def example_settings_def trim_def isWhiteSpace_def js_def)

subsection \<open>The selector leaves its input alone\<close>

text \<open>
  On the contents of the arrays, the selector over the store computes what the selector
  over lists of notes computes.
\<close>

lemma array_filter_frame:
  "fileObjects (snd (array_filter callback a s)) = fileObjects s"
  "take (length (arrayObjects s)) (arrayObjects (snd (array_filter callback a s))) = arrayObjects s"
  "fst (array_filter callback a s) = length (arrayObjects s)"
  "arrayAt (snd (array_filter callback a s)) (length (arrayObjects s)) =
     filter callback (arrayAt s a)"
  "fileAt (snd (array_filter callback a s)) = fileAt s"
  by (simp_all add: array_filter_def arrayAt_def fileAt_def fun_eq_iff)

lemma getNotesFromPastDays_store_refines:
  "map (fileAt (snd (getNotesFromPastDays_store now days listing s)))
       (arrayAt (snd (getNotesFromPastDays_store now days listing s))
                (fst (getNotesFromPastDays_store now days listing s))) =
   fst (getNotesFromPastDays
          \<lparr>markdownFiles = map (fileAt s) (arrayAt s listing), clock = now,
            mathRandom = r, openFileFails = f\<rparr> days)"
  by (simp add: getNotesFromPastDays_store_def getNotesFromPastDays_def cutoffTime_def
      dateNow_def array_filter_frame filter_map o_def Let_def)

lemma getNotesFromDirectory_store_refines:
  "map (fileAt (snd (getNotesFromDirectory_store directoryPath listing s)))
       (arrayAt (snd (getNotesFromDirectory_store directoryPath listing s))
                (fst (getNotesFromDirectory_store directoryPath listing s))) =
   fst (getNotesFromDirectory
          \<lparr>markdownFiles = map (fileAt s) (arrayAt s listing), clock = now,
            mathRandom = r, openFileFails = f\<rparr> directoryPath)"
  by (simp add: getNotesFromDirectory_store_def getNotesFromDirectory_def array_filter_frame
      filter_map o_def Let_def)

lemma getRandomNote_store_refines:
  "fst (getRandomNote_store r notes s) =
   fst (getRandomNote \<lparr>markdownFiles = fs, clock = now, mathRandom = r, openFileFails = f\<rparr>
          (arrayAt s notes))"
  by (simp add: getRandomNote_store_def getRandomNote_def Let_def)

text \<open>
  Claim C8. The two filters and the random pick write to no object that existed before the
  call: every file object and every array object of the store, the listing among them, is
  as it was. A filter returns a reference that was not in use, that of a new array; the
  pick changes nothing at all.
\<close>

theorem selector_frame:
  "fileObjects (snd (getNotesFromPastDays_store now days listing s)) = fileObjects s
   \<and> take (length (arrayObjects s))
        (arrayObjects (snd (getNotesFromPastDays_store now days listing s))) = arrayObjects s
   \<and> fst (getNotesFromPastDays_store now days listing s) = length (arrayObjects s)
   \<and> fileObjects (snd (getNotesFromDirectory_store directoryPath listing s)) = fileObjects s
   \<and> take (length (arrayObjects s))
        (arrayObjects (snd (getNotesFromDirectory_store directoryPath listing s))) = arrayObjects s
   \<and> fst (getNotesFromDirectory_store directoryPath listing s) = length (arrayObjects s)
   \<and> snd (getRandomNote_store randomValue notes s) = s"
  by (simp add: getNotesFromPastDays_store_def getNotesFromDirectory_store_def Let_def
      array_filter_frame getRandomNote_store_def)


end
